theory Spec2Isabelle
  imports Main
begin

section \<open>The settings store of plugins/supported/Settings/memory.js\<close>

text \<open>
  \<^verbatim>\<open>MemorySettings\<close> is an \<^verbatim>\<open>SC.Object\<close> (SproutCore) extended with
  \<^verbatim>\<open>addSetting\<close>, \<^verbatim>\<open>resetValue\<close>, \<^verbatim>\<open>_getSettingNames\<close>, \<^verbatim>\<open>_list\<close>,
  \<^verbatim>\<open>_changeValue\<close>, \<^verbatim>\<open>_loadInitialValues\<close>, \<^verbatim>\<open>_loadDefaultValues\<close>,
  \<^verbatim>\<open>_loadFromObject\<close>, \<^verbatim>\<open>_saveToObject\<close> and \<^verbatim>\<open>_defaultValues\<close>. It does not
  define \<^verbatim>\<open>get\<close> or \<^verbatim>\<open>set\<close>: both are the ones inherited from \<^verbatim>\<open>SC.Object\<close>.

  Each method is embedded under its own name (a leading underscore is dropped, and
  \<^verbatim>\<open>get\<close>, \<^verbatim>\<open>set\<close>, \<^verbatim>\<open>_list\<close> become \<open>sc_get\<close>, \<open>sc_set\<close>, \<open>list_settings\<close>).
  The object is passed explicitly as \<open>this\<close>. A method returns an outcome: what it
  returned or the exception it threw, paired with the object as the call left it.
  A method is a property of the object like any other: a call \<^verbatim>\<open>this.m(...)\<close> (or
  \<^verbatim>\<open>settings.m(...)\<close> from outside) reads the key \<open>m\<close> at the time of the call and
  is a TypeError when the key no longer holds the function. Each definition of a
  method below is such a call.
  The asynchronous steps (\<^verbatim>\<open>then\<close> on a promise, \<^verbatim>\<open>typeExt.load\<close>) are modelled
  by their completed run: a promise is the value it resolves with, or \<open>None\<close> when it
  never resolves, and a callback runs where it is attached.
\<close>

subsection \<open>JavaScript values\<close>

datatype jsval = Undefined | Null | Bool bool | Num int | Str string

text \<open>
  What a key of the object holds: \<open>Method\<close>, the function the object was created
  with under that key, or a value. The values of declarations and snapshots are data,
  never functions. A key that was never written and is no member holds
  \<^verbatim>\<open>undefined\<close>.
\<close>

datatype slot = Method | Value jsval

text \<open>Truthiness, the operator \<^verbatim>\<open>!\<close> and strict equality \<^verbatim>\<open>===\<close> on these values.\<close>

fun truthy :: "jsval \<Rightarrow> bool" where
  "truthy Undefined = False"
| "truthy Null = False"
| "truthy (Bool b) = b"
| "truthy (Num n) = (n \<noteq> 0)"
| "truthy (Str s) = (s \<noteq> [])"

definition js_not :: "jsval \<Rightarrow> jsval" where
  "js_not v = Bool (\<not> truthy v)"

definition strict_eq :: "jsval \<Rightarrow> jsval \<Rightarrow> bool" where
  "strict_eq a b = (a = b)"

text \<open>
  What the code throws: the four string literals of \<^verbatim>\<open>addSetting\<close> (with the parts
  concatenated into the message), and the engine's errors for an identifier that is
  not declared and for a call of something that is not a function
  (\<open>not_a_function m\<close> for the call \<^verbatim>\<open>this.m(...)\<close>).
\<close>

datatype error =
    NeedNameMembers
  | TypeShouldBeOneOf "string option list" "string option"
  | NeedDefaultValueMembers
  | DefaultValueNotValid jsval "string option"
  | ReferenceError string
  | TypeError string

definition not_a_function :: "string \<Rightarrow> error" where
  "not_a_function m = TypeError (''this.'' @ m @ '' is not a function'')"

subsection \<open>Extensions, the catalog and the types\<close>

text \<open>
  An extension as the code reads it: its members \<^verbatim>\<open>name\<close>, \<^verbatim>\<open>type\<close> and
  \<^verbatim>\<open>defaultValue\<close>. A member that is missing reads as \<^verbatim>\<open>undefined\<close>: \<open>None\<close> for
  the two strings, \<open>Undefined\<close> for the default value.
\<close>

record ext =
  name :: "string option"
  type :: "string option"
  defaultValue :: jsval

text \<open>
  Modelled from the spec: the extension catalog (\<^verbatim>\<open>bespin:plugins\<close>) is not among the
  sources. It supplies the setting declarations and the type declarations, each kind
  under its extension point ("setting", "type") in declaration order. The first
  argument of its functions names the extension point, as in
  \<^verbatim>\<open>catalog.getExtensions("setting")\<close> of \<^verbatim>\<open>_getSettingNames\<close>:
  \<^verbatim>\<open>getExtensions(ep)\<close> lists the extensions of the point \<open>ep\<close> and
  \<^verbatim>\<open>getExtensionByKey(ep, key)\<close> is the first of them whose name is \<open>key\<close>.
\<close>

type_synonym catalog = "string \<Rightarrow> ext list"

definition getExtensions :: "catalog \<Rightarrow> string \<Rightarrow> ext list" where
  "getExtensions cat ep = cat ep"

definition getExtensionByKey :: "catalog \<Rightarrow> string \<Rightarrow> string option \<Rightarrow> ext option" where
  "getExtensionByKey cat ep key = find (\<lambda>e. name e = key) (cat ep)"

text \<open>
  Modelled from the spec: the type system (\<^verbatim>\<open>Types:types\<close>) is not among the sources.
  A type validates a value, parses it from its string form and serialises it; the two
  conversions are promises. \<^verbatim>\<open>getTypeExt\<close> resolves with nothing for a name that is
  not a type (the code tests \<^verbatim>\<open>!typeExt\<close>).
\<close>

record type_obj =
  isValid :: "jsval \<Rightarrow> bool"
  fromString :: "jsval \<Rightarrow> jsval option"
  toString :: "jsval \<Rightarrow> string option"

type_synonym types = "string \<Rightarrow> type_obj option"

definition getTypeExt :: "types \<Rightarrow> string option \<Rightarrow> type_obj option" where
  "getTypeExt tys t = (case t of None \<Rightarrow> None | Some n \<Rightarrow> tys n)"

definition types_fromString :: "types \<Rightarrow> jsval \<Rightarrow> string option \<Rightarrow> jsval option" where
  "types_fromString tys v t =
     (case getTypeExt tys t of None \<Rightarrow> None | Some ty \<Rightarrow> fromString ty v)"

text \<open>
  \<^verbatim>\<open>types.toString\<close> is handed what \<^verbatim>\<open>this.get(key)\<close> returned; a function is a value
  of no type, and its serialisation does not resolve.
\<close>

definition types_toString :: "types \<Rightarrow> slot \<Rightarrow> string option \<Rightarrow> string option" where
  "types_toString tys value t =
     (case value of
        Method \<Rightarrow> None
      | Value v \<Rightarrow> (case getTypeExt tys t of None \<Rightarrow> None | Some ty \<Rightarrow> toString ty v))"

text \<open>
  Modelled from the spec: \<^verbatim>\<open>Promise.group\<close> (\<^verbatim>\<open>Promise:core/promise\<close>) is not among the
  sources. It gives "a list of all the data in the grouped promises", so it resolves,
  with that list, once every promise of the group has resolved.
\<close>

fun groupPromises :: "'a option list \<Rightarrow> 'a list option" where
  "groupPromises [] = Some []"
| "groupPromises (p # ps) =
     (case p of
        None \<Rightarrow> None
      | Some x \<Rightarrow> (case groupPromises ps of None \<Rightarrow> None | Some xs \<Rightarrow> Some (x # xs)))"

subsection \<open>The object: members, properties, observers and the persistence hook\<close>

text \<open>
  \<open>members\<close> are the keys under which the object was created holding a function:
  the methods \<^verbatim>\<open>memory.js\<close> defines and those \<^verbatim>\<open>SC.Object\<close> supplies. \<open>props\<close> is
  what each key holds now; settings are written under their names among the same
  keys (\<^verbatim>\<open>this[key] = value\<close>), so a setting named like a member replaces it.
  \<open>observers\<close> lists, in the order of attachment, the observers added by
  \<^verbatim>\<open>addSetting\<close>: the entry \<open>n\<close> is the function of lines 134 to 136, observing the
  key \<open>n\<close>. \<^verbatim>\<open>_changeValue\<close> has an empty body (subclasses override it); \<open>changed\<close>
  records its calls, so that a notification can be observed.
\<close>

record memory_settings =
  members :: "string list"
  props :: "string \<Rightarrow> slot"
  observers :: "string list"
  changed :: "(string \<times> slot) list"

type_synonym 'a outcome = "(error + 'a) \<times> memory_settings"

text \<open>
  The members to be seen in the sources: the eleven methods of \<^verbatim>\<open>memory.js\<close>, and
  \<^verbatim>\<open>get\<close>, \<^verbatim>\<open>set\<close> and \<^verbatim>\<open>addObserver\<close>, which it calls on \<^verbatim>\<open>SC.Object\<close>. The
  further members of \<^verbatim>\<open>SC.Object\<close> are not in the sources; the object as created
  here has none, and the properties below are stated for every object, whatever its
  members.
\<close>

definition known_members :: "string list" where
  "known_members =
     [''init'', ''addSetting'', ''resetValue'', ''_getSettingNames'', ''_list'',
      ''_changeValue'', ''_loadInitialValues'', ''_loadDefaultValues'', ''_loadFromObject'',
      ''_saveToObject'', ''_defaultValues'', ''get'', ''set'', ''addObserver'']"

definition created :: memory_settings where
  "created =
     \<lparr>members = known_members,
      props = (\<lambda>k. if k \<in> set known_members then Method else Value Undefined),
      observers = [], changed = []\<rparr>"

text \<open>The key \<open>m\<close> still holds the function: the call \<^verbatim>\<open>this.m(...)\<close> can be made.\<close>

definition holds_method :: "memory_settings \<Rightarrow> string \<Rightarrow> bool" where
  "holds_method this m = (props this m = Method)"

text \<open>
  \<^verbatim>\<open>SC.Object\<close> is SproutCore's (\<^verbatim>\<open>require("sproutcore/runtime")\<close>) and not among the
  sources. \<^verbatim>\<open>get\<close>, \<^verbatim>\<open>set\<close> and \<^verbatim>\<open>addObserver\<close> are modelled as the plain
  key-value observing the file relies on: \<^verbatim>\<open>get(key)\<close> returns what the key holds;
  \<^verbatim>\<open>set(key, value)\<close> stores the value under the key and then calls the observers
  of the key in the order of their attachment ("Alter the value, which also publishes
  the change", line 72); \<^verbatim>\<open>addObserver\<close> attaches one more. None of them consults a
  type. An exception thrown by an observer leaves \<^verbatim>\<open>set\<close> with the value stored and
  the later observers not called.
\<close>

definition sc_get :: "memory_settings \<Rightarrow> string \<Rightarrow> error + slot" where
  "sc_get this key =
     (if holds_method this ''get'' then Inr (props this key) else Inl (not_a_function ''get''))"

definition changeValue :: "memory_settings \<Rightarrow> string \<Rightarrow> slot \<Rightarrow> unit outcome" where
  "changeValue this key value =
     (if holds_method this ''_changeValue''
      then (Inr (), this\<lparr>changed := changed this @ [(key, value)]\<rparr>)
      else (Inl (not_a_function ''_changeValue''), this))"

text \<open>
  The observer that \<^verbatim>\<open>addSetting\<close> attaches for the name \<open>n\<close>, line 135:
  \<^verbatim>\<open>this._changeValue(n, this.get(n))\<close>. The argument is evaluated before the call
  is made, and both members are read from the object when the observer runs.
\<close>

definition observer :: "string \<Rightarrow> memory_settings \<Rightarrow> unit outcome" where
  "observer n this =
     (case sc_get this n of
        Inl e \<Rightarrow> (Inl e, this)
      | Inr value \<Rightarrow> changeValue this n value)"

fun notifyObservers :: "string list \<Rightarrow> string \<Rightarrow> memory_settings \<Rightarrow> unit outcome" where
  "notifyObservers [] key this = (Inr (), this)"
| "notifyObservers (n # ns) key this =
     (if n = key
      then (case observer n this of
              (Inl e, this') \<Rightarrow> (Inl e, this')
            | (Inr u, this') \<Rightarrow> notifyObservers ns key this')
      else notifyObservers ns key this)"

definition sc_set :: "memory_settings \<Rightarrow> string \<Rightarrow> jsval \<Rightarrow> unit outcome" where
  "sc_set this key v =
     (if holds_method this ''set''
      then notifyObservers (observers this) key (this\<lparr>props := (props this)(key := Value v)\<rparr>)
      else (Inl (not_a_function ''set''), this))"

definition addObserver :: "memory_settings \<Rightarrow> string \<Rightarrow> unit outcome" where
  "addObserver this key =
     (if holds_method this ''addObserver''
      then (Inr (), this\<lparr>observers := observers this @ [key]\<rparr>)
      else (Inl (not_a_function ''addObserver''), this))"

subsection \<open>addSetting\<close>

text \<open>
  \<^verbatim>\<open>_getSettingNames\<close>: the names of the catalog's "setting" extensions, in order.
\<close>

definition getSettingNames :: "catalog \<Rightarrow> memory_settings \<Rightarrow> error + string option list" where
  "getSettingNames cat this =
     (if holds_method this ''_getSettingNames''
      then Inr (map name (getExtensions cat ''setting''))
      else Inl (not_a_function ''_getSettingNames''))"

text \<open>The guard of line 119, \<^verbatim>\<open>!settingExt.defaultValue === undefined\<close>.\<close>

definition defaultValue_guard :: "ext \<Rightarrow> bool" where
  "defaultValue_guard settingExt = strict_eq (js_not (defaultValue settingExt)) Undefined"

text \<open>
  \<^verbatim>\<open>!settingExt.name\<close> holds when the member is missing or the empty string. The
  throws inside the two callbacks are the call's exception. The message for a type
  that does not resolve is built with \<^verbatim>\<open>this._getSettingNames()\<close>. The default is
  stored first (line 131) and the observer attached after it (line 134); an
  exception of either call ends \<^verbatim>\<open>addSetting\<close> where it is thrown.
\<close>

definition addSetting :: "catalog \<Rightarrow> types \<Rightarrow> ext \<Rightarrow> memory_settings \<Rightarrow> unit outcome" where
  "addSetting cat tys settingExt this =
     (if \<not> holds_method this ''addSetting'' then (Inl (not_a_function ''addSetting''), this)
      else
        (case name settingExt of
           None \<Rightarrow> (Inl NeedNameMembers, this)
         | Some n \<Rightarrow>
             if n = [] then (Inl NeedNameMembers, this)
             else
               (case getTypeExt tys (type settingExt) of
                  None \<Rightarrow>
                    (case getSettingNames cat this of
                       Inl e \<Rightarrow> (Inl e, this)
                     | Inr names \<Rightarrow> (Inl (TypeShouldBeOneOf names (type settingExt)), this))
                | Some ty \<Rightarrow>
                    if defaultValue_guard settingExt then (Inl NeedDefaultValueMembers, this)
                    else if \<not> isValid ty (defaultValue settingExt)
                    then (Inl (DefaultValueNotValid (defaultValue settingExt) (type settingExt)),
                          this)
                    else
                      (case sc_set this n (defaultValue settingExt) of
                         (Inl e, this') \<Rightarrow> (Inl e, this')
                       | (Inr u, this') \<Rightarrow> addObserver this' n))))"

subsection \<open>resetValue\<close>

text \<open>
  The first statement, \<^verbatim>\<open>var setting = choice._settings[key]\<close>, reads the identifier
  \<^verbatim>\<open>choice\<close>. The function declares \<^verbatim>\<open>key\<close> and \<^verbatim>\<open>setting\<close>, the module
  \<^verbatim>\<open>SC\<close>, \<^verbatim>\<open>catalog\<close>, \<^verbatim>\<open>Promise\<close>, \<^verbatim>\<open>groupPromises\<close> and \<^verbatim>\<open>types\<close>;
  nothing declares \<^verbatim>\<open>choice\<close>, so evaluating it throws a ReferenceError before
  either branch of the \<^verbatim>\<open>if\<close> is reached.
\<close>

definition resetValue :: "memory_settings \<Rightarrow> string \<Rightarrow> unit outcome" where
  "resetValue this key =
     (if holds_method this ''resetValue'' then (Inl (ReferenceError ''choice''), this)
      else (Inl (not_a_function ''resetValue''), this))"

subsection \<open>The list of settings\<close>

text \<open>
  \<^verbatim>\<open>_list\<close>: the callback of \<^verbatim>\<open>forEach\<close> names its parameter \<^verbatim>\<open>key\<close> and reads
  \<^verbatim>\<open>prop\<close>, which nothing declares: the first iteration throws a ReferenceError.
  With no setting declared the callback never runs and the empty reply is returned.
\<close>

fun list_loop ::
  "memory_settings \<Rightarrow> string option list \<Rightarrow> (string \<times> slot) list \<Rightarrow> error + (string \<times> slot) list"
where
  "list_loop this [] reply = Inr reply"
| "list_loop this (key # keys) reply = Inl (ReferenceError ''prop'')"

definition list_settings :: "catalog \<Rightarrow> memory_settings \<Rightarrow> (string \<times> slot) list outcome" where
  "list_settings cat this =
     (if \<not> holds_method this ''_list'' then (Inl (not_a_function ''_list''), this)
      else
        (case getSettingNames cat this of
           Inl e \<Rightarrow> (Inl e, this)
         | Inr names \<Rightarrow> (list_loop this names [], this)))"

subsection \<open>Loading and saving\<close>

text \<open>
  A plain object is the list of its own properties in the order of their creation;
  \<open>js_put\<close> is the assignment \<^verbatim>\<open>obj[key] = v\<close>, and \<open>js_key\<close> the property key a
  name stands for (\<^verbatim>\<open>undefined\<close> is the key "undefined").
\<close>

fun js_put :: "(string \<times> 'a) list \<Rightarrow> string \<Rightarrow> 'a \<Rightarrow> (string \<times> 'a) list" where
  "js_put [] k v = [(k, v)]"
| "js_put ((k', v') # kvs) k v = (if k' = k then (k, v) # kvs else (k', v') # js_put kvs k v)"

definition js_key :: "string option \<Rightarrow> string" where
  "js_key k = (case k of None \<Rightarrow> ''undefined'' | Some s \<Rightarrow> s)"


text \<open>
  \<^verbatim>\<open>_loadFromObject\<close>. For each own key of \<^verbatim>\<open>data\<close> the code looks the key up with
  \<^verbatim>\<open>catalog.getExtensionByKey("type", key)\<close>: among the extensions of the point
  "type", not of the point "setting". A key that names none is skipped. For a key
  that names one, the value is parsed for the type \<^verbatim>\<open>settingExt.type\<close> and the
  promise is pushed. The callback \<^verbatim>\<open>function(value) { this.set(key, value); }\<close> is
  the only one of the file that is not bound with \<^verbatim>\<open>.bind(this)\<close>: when the parse
  resolves it runs with a \<^verbatim>\<open>this\<close> that is not the settings object and has no
  \<^verbatim>\<open>set\<close>, which is a TypeError. The settings object is never written. When the
  parse does not resolve, the callback does not run and the loop goes on.
\<close>

fun loadFromObject_loop ::
  "catalog \<Rightarrow> types \<Rightarrow> (string \<times> jsval) list \<Rightarrow> jsval option list \<Rightarrow> error + jsval option list"
where
  "loadFromObject_loop cat tys [] promises = Inr promises"
| "loadFromObject_loop cat tys ((key, v) # data) promises =
     (case getExtensionByKey cat ''type'' (Some key) of
        None \<Rightarrow> loadFromObject_loop cat tys data promises
      | Some settingExt \<Rightarrow>
          (case types_fromString tys v (type settingExt) of
             None \<Rightarrow> loadFromObject_loop cat tys data (promises @ [None])
           | Some parsed \<Rightarrow> Inl (not_a_function ''set'')))"

text \<open>
  The reply promise resolves (with nothing) when the group of the pushed promises
  resolves; the group has no error callback, so otherwise the reply never resolves.
\<close>

definition loadFromObject ::
  "catalog \<Rightarrow> types \<Rightarrow> memory_settings \<Rightarrow> (string \<times> jsval) list \<Rightarrow> unit option outcome"
where
  "loadFromObject cat tys this data =
     (if \<not> holds_method this ''_loadFromObject'' then (Inl (not_a_function ''_loadFromObject''), this)
      else
        (case loadFromObject_loop cat tys data [] of
           Inl e \<Rightarrow> (Inl e, this)
         | Inr promises \<Rightarrow>
             (Inr (case groupPromises promises of None \<Rightarrow> None | Some rs \<Rightarrow> Some ()), this)))"



text \<open>
  \<^verbatim>\<open>_saveToObject\<close>: for each declared setting name the current value is read with
  \<^verbatim>\<open>this.get(key)\<close>, then the same lookup in the point "type" is made; a name that
  is no type's name is skipped, otherwise the value is serialised for the type
  \<^verbatim>\<open>settingExt.type\<close> and, when that resolves, stored in the reply under the name.
  The reply promise resolves with the reply when the group resolves.
\<close>

fun saveToObject_loop ::
  "catalog \<Rightarrow> types \<Rightarrow> memory_settings \<Rightarrow> string option list \<Rightarrow> string option list \<Rightarrow>
     (string \<times> string) list \<Rightarrow> error + string option list \<times> (string \<times> string) list"
where
  "saveToObject_loop cat tys this [] promises reply = Inr (promises, reply)"
| "saveToObject_loop cat tys this (key # keys) promises reply =
     (case sc_get this (js_key key) of
        Inl e \<Rightarrow> Inl e
      | Inr value \<Rightarrow>
          (case getExtensionByKey cat ''type'' key of
             None \<Rightarrow> saveToObject_loop cat tys this keys promises reply
           | Some settingExt \<Rightarrow>
               (case types_toString tys value (type settingExt) of
                  None \<Rightarrow> saveToObject_loop cat tys this keys (promises @ [None]) reply
                | Some str \<Rightarrow>
                    saveToObject_loop cat tys this keys (promises @ [Some str])
                      (js_put reply (js_key key) str))))"

definition saveToObject ::
  "catalog \<Rightarrow> types \<Rightarrow> memory_settings \<Rightarrow> (string \<times> string) list option outcome"
where
  "saveToObject cat tys this =
     (if \<not> holds_method this ''_saveToObject'' then (Inl (not_a_function ''_saveToObject''), this)
      else
        (case getSettingNames cat this of
           Inl e \<Rightarrow> (Inl e, this)
         | Inr names \<Rightarrow>
             (case saveToObject_loop cat tys this names [] [] of
                Inl e \<Rightarrow> (Inl e, this)
              | Inr (promises, reply) \<Rightarrow>
                  (Inr (case groupPromises promises of None \<Rightarrow> None | Some rs \<Rightarrow> Some reply),
                   this))))"

subsection \<open>A catalog to run the code on\<close>

text \<open>
  Two types, "number" (decimal numerals) and "text", and two settings, "tabsize"
  (a number, default 4) and "theme" (a text, default "dark"), as the usage example
  of \<^verbatim>\<open>addSetting\<close> declares them.
\<close>

definition digit_of :: "char \<Rightarrow> nat option" where
  "digit_of c = map_of (zip ''0123456789'' [0, 1, 2, 3, 4, 5, 6, 7, 8, 9]) c"

fun read_digits :: "string \<Rightarrow> nat \<Rightarrow> nat option" where
  "read_digits [] acc = Some acc"
| "read_digits (c # cs) acc =
     (case digit_of c of None \<Rightarrow> None | Some d \<Rightarrow> read_digits cs (10 * acc + d))"

fun show_nat :: "nat \<Rightarrow> string" where
  "show_nat n =
     (if n < 10 then [''0123456789'' ! n]
      else show_nat (n div 10) @ [''0123456789'' ! (n mod 10)])"

declare show_nat.simps [simp del]

definition number_type :: type_obj where
  "number_type =
     \<lparr>isValid = (\<lambda>v. case v of Num n \<Rightarrow> True | _ \<Rightarrow> False),
      fromString = (\<lambda>v. case v of
         Str s \<Rightarrow> (if s = [] then None
                   else (case read_digits s 0 of None \<Rightarrow> None | Some n \<Rightarrow> Some (Num (int n))))
       | _ \<Rightarrow> None),
      toString = (\<lambda>v. case v of
         Num n \<Rightarrow> Some (if n < 0 then CHR ''-'' # show_nat (nat (- n)) else show_nat (nat n))
       | _ \<Rightarrow> None)\<rparr>"

definition text_type :: type_obj where
  "text_type =
     \<lparr>isValid = (\<lambda>v. case v of Str s \<Rightarrow> True | _ \<Rightarrow> False),
      fromString = (\<lambda>v. case v of Str s \<Rightarrow> Some (Str s) | _ \<Rightarrow> None),
      toString = (\<lambda>v. case v of Str s \<Rightarrow> Some s | _ \<Rightarrow> None)\<rparr>"

definition types0 :: types where
  "types0 t =
     (if t = ''number'' then Some number_type
      else if t = ''text'' then Some text_type else None)"

definition tabsize_ext :: ext where
  "tabsize_ext = \<lparr>name = Some ''tabsize'', type = Some ''number'', defaultValue = Num 4\<rparr>"

definition theme_ext :: ext where
  "theme_ext = \<lparr>name = Some ''theme'', type = Some ''text'', defaultValue = Str ''dark''\<rparr>"

definition type_ext :: "string \<Rightarrow> ext" where
  "type_ext n = \<lparr>name = Some n, type = None, defaultValue = Undefined\<rparr>"

text \<open>A declaration of a setting named like a member of the object.\<close>

definition changeValue_ext :: ext where
  "changeValue_ext = \<lparr>name = Some ''_changeValue'', type = Some ''number'', defaultValue = Num 1\<rparr>"

definition cat0 :: catalog where
  "cat0 ep =
     (if ep = ''setting'' then [tabsize_ext, theme_ext]
      else if ep = ''type'' then [type_ext ''number'', type_ext ''text'']
      else [])"

definition cat1 :: catalog where
  "cat1 ep =
     (if ep = ''setting'' then [tabsize_ext]
      else if ep = ''type'' then [type_ext ''number'', type_ext ''text'']
      else [])"

text \<open>
  The object after \<^verbatim>\<open>addSetting\<close> of "tabsize"; after that and \<^verbatim>\<open>addSetting\<close> of
  "theme"; after "tabsize" and \<^verbatim>\<open>set("tabsize", 8)\<close>; and after \<^verbatim>\<open>addSetting\<close> of
  "tabsize" twice.
\<close>

definition with_tabsize :: memory_settings where
  "with_tabsize = snd (addSetting cat1 types0 tabsize_ext created)"

definition with_both :: memory_settings where
  "with_both = snd (addSetting cat0 types0 theme_ext with_tabsize)"

definition tabsize_8 :: memory_settings where
  "tabsize_8 = snd (sc_set with_tabsize ''tabsize'' (Num 8))"



text \<open>
  An object is intact when every key it was created with a function under still
  holds it, the members seen in the sources among them.
\<close>

definition intact :: "memory_settings \<Rightarrow> bool" where
  "intact this =
     (list_all (holds_method this) (members this) \<and>
      list_all (\<lambda>m. m \<in> set (members this)) known_members)"

section \<open>Properties\<close>

subsection \<open>Facts about the object\<close>

lemma defaultValue_guard_False: "defaultValue_guard settingExt = False"
  by (simp add: defaultValue_guard_def strict_eq_def js_not_def)

lemma intact_method: "intact this \<Longrightarrow> m \<in> set known_members \<Longrightarrow> holds_method this m"
  by (auto simp: intact_def list_all_iff)

lemma intact_called:
  assumes "intact this"
  shows "holds_method this ''addSetting''" and "holds_method this ''set''" and "holds_method this ''get''"
    and "holds_method this ''addObserver''" and "holds_method this ''_changeValue''"
  using assms by (simp_all add: intact_method known_members_def)

lemma intact_not_member:
  assumes "intact this" and "n \<notin> set (members this)"
  shows "n \<noteq> ''addSetting''" and "n \<noteq> ''set''" and "n \<noteq> ''get''"
    and "n \<noteq> ''addObserver''" and "n \<noteq> ''_changeValue''"
  using assms by (auto simp: intact_def list_all_iff known_members_def)

lemma notifyObservers_intact:
  assumes "holds_method this ''get''" and "holds_method this ''_changeValue''"
  shows "notifyObservers ns key this =
           (Inr (), this\<lparr>changed := changed this @ replicate (count_list ns key) (key, props this key)\<rparr>)"
  using assms
proof (induction ns arbitrary: this)
  case Nil
  then show ?case by simp
next
  case (Cons n ns)
  show ?case
  proof (cases "n = key")
    case True
    have step: "observer key this = (Inr (), this\<lparr>changed := changed this @ [(key, props this key)]\<rparr>)"
      using Cons.prems by (simp add: observer_def sc_get_def changeValue_def)
    have "holds_method (this\<lparr>changed := changed this @ [(key, props this key)]\<rparr>) ''get''"
      and "holds_method (this\<lparr>changed := changed this @ [(key, props this key)]\<rparr>) ''_changeValue''"
      using Cons.prems by (simp_all add: holds_method_def)
    from Cons.IH [OF this] True step show ?thesis
      by (simp add: replicate_append_same)
  next
    case False
    with Cons show ?thesis by simp
  qed
qed

lemma sc_set_intact:
  assumes "intact this" and "n \<notin> set (members this)"
  shows "sc_set this n v =
           (Inr (), this\<lparr>props := (props this)(n := Value v),
              changed := changed this @ replicate (count_list (observers this) n) (n, Value v)\<rparr>)"
proof -
  let ?s = "this\<lparr>props := (props this)(n := Value v)\<rparr>"
  have "holds_method ?s ''get''" and "holds_method ?s ''_changeValue''"
    using intact_called [OF assms(1)] intact_not_member [OF assms]
    by (simp_all add: holds_method_def)
  from notifyObservers_intact [OF this, of "observers this" n]
  show ?thesis
    using intact_called(2) [OF assms(1)] by (simp add: sc_set_def)
qed

lemma intact_update:
  assumes "intact this" and "n \<notin> set (members this)"
  shows "intact (this\<lparr>props := (props this)(n := Value v), changed := c\<rparr>)"
    and "intact (this\<lparr>props := (props this)(n := Value v), changed := c, observers := obs\<rparr>)"
  using assms by (auto simp: intact_def list_all_iff holds_method_def)

lemma addSetting_intact:
  assumes "intact this" and "n \<notin> set (members this)"
    and "name settingExt = Some n" and "n \<noteq> []"
    and "getTypeExt tys (type settingExt) = Some ty"
    and "isValid ty (defaultValue settingExt)"
  shows "addSetting cat tys settingExt this =
           (Inr (), this\<lparr>props := (props this)(n := Value (defaultValue settingExt)),
              changed := changed this @
                replicate (count_list (observers this) n) (n, Value (defaultValue settingExt)),
              observers := observers this @ [n]\<rparr>)"
proof -
  have "holds_method (this\<lparr>props := (props this)(n := Value (defaultValue settingExt)),
              changed := changed this @
                replicate (count_list (observers this) n) (n, Value (defaultValue settingExt))\<rparr>)
          ''addObserver''"
    using intact_called(4) [OF assms(1)] intact_not_member(4) [OF assms(1,2)]
    by (simp add: holds_method_def)
  then show ?thesis
    using assms(3-6) intact_called(1) [OF assms(1)]
    by (simp add: addSetting_def defaultValue_guard_False sc_set_intact [OF assms(1,2)]
        addObserver_def)
qed

lemma addSetting_invalid:
  assumes "holds_method this ''addSetting''"
    and "name settingExt = Some n" and "n \<noteq> []"
    and "getTypeExt tys (type settingExt) = Some ty"
    and "\<not> isValid ty (defaultValue settingExt)"
  shows "addSetting cat tys settingExt this =
           (Inl (DefaultValueNotValid (defaultValue settingExt) (type settingExt)), this)"
  using assms by (simp add: addSetting_def defaultValue_guard_False)


lemma intact_created: "intact created"
  by (simp add: intact_def created_def holds_method_def known_members_def)

lemma not_member_created:
  "''tabsize'' \<notin> set (members created)" "''theme'' \<notin> set (members created)"
  by (simp_all add: created_def known_members_def)

lemma addSetting_tabsize:
  "addSetting cat1 types0 tabsize_ext created =
     (Inr (), created\<lparr>props := (props created)(''tabsize'' := Value (Num 4)),
        changed := [], observers := [''tabsize'']\<rparr>)"
proof -
  have "observers created = []" and "changed created = []"
    by (simp_all add: created_def)
  with addSetting_intact [OF intact_created not_member_created(1),
      of tabsize_ext types0 number_type cat1]
  show ?thesis
    by (simp add: tabsize_ext_def getTypeExt_def types0_def number_type_def)
qed

lemma with_tabsize_eq:
  "with_tabsize = created\<lparr>props := (props created)(''tabsize'' := Value (Num 4)),
        changed := [], observers := [''tabsize'']\<rparr>"
  by (simp add: with_tabsize_def addSetting_tabsize)

lemma intact_with_tabsize: "intact with_tabsize"
  using intact_update(2) [OF intact_created not_member_created(1)]
  by (simp add: with_tabsize_eq)

lemma with_tabsize_facts:
  "members with_tabsize = members created"
  "observers with_tabsize = [''tabsize'']"
  "changed with_tabsize = []"
  "props with_tabsize ''tabsize'' = Value (Num 4)"
  by (simp_all add: with_tabsize_eq)

lemma not_member_with_tabsize:
  "''tabsize'' \<notin> set (members with_tabsize)" "''theme'' \<notin> set (members with_tabsize)"
  by (simp_all add: with_tabsize_facts(1) not_member_created)

lemma addSetting_theme:
  "addSetting cat0 types0 theme_ext with_tabsize =
     (Inr (), with_tabsize\<lparr>props := (props with_tabsize)(''theme'' := Value (Str ''dark'')),
        changed := [], observers := [''tabsize'', ''theme'']\<rparr>)"
  using addSetting_intact [OF intact_with_tabsize not_member_with_tabsize(2),
      of theme_ext types0 text_type cat0]
  by (simp add: theme_ext_def getTypeExt_def types0_def text_type_def with_tabsize_facts)

lemma with_both_eq:
  "with_both = with_tabsize\<lparr>props := (props with_tabsize)(''theme'' := Value (Str ''dark'')),
        changed := [], observers := [''tabsize'', ''theme'']\<rparr>"
  by (simp add: with_both_def addSetting_theme)

lemma intact_with_both: "intact with_both"
  using intact_update(2) [OF intact_with_tabsize not_member_with_tabsize(2)]
  by (simp add: with_both_eq)

lemma with_both_facts:
  "changed with_both = []"
  "props with_both ''tabsize'' = Value (Num 4)"
  "props with_both ''theme'' = Value (Str ''dark'')"
  by (simp_all add: with_both_eq with_tabsize_facts)

lemma sc_get_intact: "intact this \<Longrightarrow> sc_get this key = Inr (props this key)"
  by (simp add: sc_get_def intact_called)

lemma sc_set_tabsize_8:
  "sc_set with_tabsize ''tabsize'' (Num 8) =
     (Inr (), with_tabsize\<lparr>props := (props with_tabsize)(''tabsize'' := Value (Num 8)),
        changed := [(''tabsize'', Value (Num 8))]\<rparr>)"
  by (simp add: sc_set_intact [OF intact_with_tabsize not_member_with_tabsize(1)] with_tabsize_facts)

lemma intact_tabsize_8: "intact tabsize_8"
  using intact_update(1) [OF intact_with_tabsize not_member_with_tabsize(1)]
  by (simp add: tabsize_8_def sc_set_tabsize_8)

lemma props_tabsize_8: "props tabsize_8 ''tabsize'' = Value (Num 8)"
  by (simp add: tabsize_8_def sc_set_tabsize_8)





lemma not_a_function_neq: "not_a_function m \<noteq> NeedDefaultValueMembers"
  by (simp add: not_a_function_def)

lemma observer_never_NeedDefaultValueMembers:
  "fst (observer n this) \<noteq> Inl NeedDefaultValueMembers"
  by (simp add: observer_def sc_get_def changeValue_def not_a_function_neq)

lemma notifyObservers_never_NeedDefaultValueMembers:
  "fst (notifyObservers ns key this) \<noteq> Inl NeedDefaultValueMembers"
proof (induction ns arbitrary: this)
  case Nil
  then show ?case by simp
next
  case (Cons n ns)
  show ?case
  proof (cases "n = key")
    case False
    with Cons show ?thesis by simp
  next
    case True
    obtain r this' where o: "observer key this = (r, this')"
      by (cases "observer key this")
    show ?thesis
    proof (cases r)
      case (Inl e)
      with o observer_never_NeedDefaultValueMembers [of key this] True show ?thesis
        by simp
    next
      case (Inr u)
      with o True Cons.IH [of this'] show ?thesis by simp
    qed
  qed
qed

lemma sc_set_never_NeedDefaultValueMembers:
  "fst (sc_set this key v) \<noteq> Inl NeedDefaultValueMembers"
  by (simp add: sc_set_def notifyObservers_never_NeedDefaultValueMembers not_a_function_neq)

lemma addObserver_never_NeedDefaultValueMembers:
  "fst (addObserver this key) \<noteq> Inl NeedDefaultValueMembers"
  by (simp add: addObserver_def not_a_function_neq)

lemma addSetting_never_NeedDefaultValueMembers:
  "fst (addSetting cat tys settingExt this) \<noteq> Inl NeedDefaultValueMembers"
proof (cases "holds_method this ''addSetting''")
  case False
  then show ?thesis by (simp add: addSetting_def not_a_function_neq)
next
  case m: True
  show ?thesis
  proof (cases "name settingExt")
    case None
    with m show ?thesis by (simp add: addSetting_def)
  next
    case (Some n)
    show ?thesis
    proof (cases "getTypeExt tys (type settingExt)")
      case None
      with m Some show ?thesis
        by (simp add: addSetting_def getSettingNames_def not_a_function_neq)
    next
      case ty: (Some ty)
      obtain r this' where s: "sc_set this n (defaultValue settingExt) = (r, this')"
        by (cases "sc_set this n (defaultValue settingExt)")
      show ?thesis
      proof (cases r)
        case (Inl e)
        with s sc_set_never_NeedDefaultValueMembers [of this n "defaultValue settingExt"]
        have "e \<noteq> NeedDefaultValueMembers" by simp
        with m Some ty s Inl show ?thesis
          by (simp add: addSetting_def defaultValue_guard_False)
      next
        case (Inr u)
        with m Some ty s addObserver_never_NeedDefaultValueMembers [of this' n] show ?thesis
          by (simp add: addSetting_def defaultValue_guard_False)
      qed
    qed
  qed
qed

text \<open>Lookups in the two catalogs: no setting's name is the name of a type.\<close>

lemma getExtensionByKey_type_cat0_tabsize:
  "getExtensionByKey cat0 ''type'' (Some ''tabsize'') = None"
  by (simp add: getExtensionByKey_def cat0_def type_ext_def)

lemma getExtensionByKey_type_cat0_theme:
  "getExtensionByKey cat0 ''type'' (Some ''theme'') = None"
  by (simp add: getExtensionByKey_def cat0_def type_ext_def)

lemma getExtensionByKey_type_cat0_number:
  "getExtensionByKey cat0 ''type'' (Some ''number'') = Some (type_ext ''number'')"
  by (simp add: getExtensionByKey_def cat0_def type_ext_def)

lemma getExtensionByKey_type_cat1_tabsize:
  "getExtensionByKey cat1 ''type'' (Some ''tabsize'') = None"
  by (simp add: getExtensionByKey_def cat1_def type_ext_def)

lemma getExtensionByKey_type_cat1_unknownKey:
  "getExtensionByKey cat1 ''type'' (Some ''unknownKey'') = None"
  by (simp add: getExtensionByKey_def cat1_def type_ext_def)

lemma getSettingNames_cat0:
  "intact this \<Longrightarrow> getSettingNames cat0 this = Inr [Some ''tabsize'', Some ''theme'']"
  by (simp add: getSettingNames_def getExtensions_def cat0_def tabsize_ext_def theme_ext_def
      intact_method known_members_def)


text \<open>Loading never writes the object, whatever the snapshot.\<close>

lemma loadFromObject_object_unchanged: "snd (loadFromObject cat tys this data) = this"
  by (simp add: loadFromObject_def split: sum.split)


text \<open>
  A setting named like a member replaces the member. After "_changeValue" is
  registered, setting it stores the value and throws in the observer, with no call of
  \<^verbatim>\<open>_changeValue\<close>; after \<^verbatim>\<open>set("get", 5)\<close>, \<^verbatim>\<open>get\<close> is no function any more.
\<close>

lemma setting_named_like_a_member:
  "fst (addSetting cat1 types0 changeValue_ext created) = Inr () \<and>
   sc_set (snd (addSetting cat1 types0 changeValue_ext created)) ''_changeValue'' (Num 2) =
     (Inl (not_a_function ''_changeValue''),
      (snd (addSetting cat1 types0 changeValue_ext created))
        \<lparr>props := (props (snd (addSetting cat1 types0 changeValue_ext created)))
           (''_changeValue'' := Value (Num 2))\<rparr>) \<and>
   changed (snd (sc_set (snd (addSetting cat1 types0 changeValue_ext created))
      ''_changeValue'' (Num 2))) = [] \<and>
   fst (sc_set created ''get'' (Num 5)) = Inr () \<and>
   sc_get (snd (sc_set created ''get'' (Num 5))) ''get'' = Inl (not_a_function ''get'')"
  by (simp add: addSetting_def changeValue_ext_def getTypeExt_def types0_def number_type_def
      defaultValue_guard_False sc_set_def addObserver_def holds_method_def created_def
      known_members_def observer_def sc_get_def changeValue_def)

subsection \<open>The guard on the default value\<close>

text \<open>
  C10. The branch of \<^verbatim>\<open>addSetting\<close> that throws "Settings need 'defaultValue'
  members" is unreachable. \<^verbatim>\<open>!settingExt.defaultValue\<close> is a boolean, and a boolean
  is never \<^verbatim>\<open>=== undefined\<close>: the guard holds for no declaration, \<^verbatim>\<open>addSetting\<close>
  never throws that message, and a declaration whose \<^verbatim>\<open>defaultValue\<close> is
  \<^verbatim>\<open>undefined\<close> (with a name and a type that resolves) goes on to the type's
  validator, which alone decides between the registration (the set of the default,
  then the observer) and the "Default value ... is not a valid ..." exception.
\<close>

theorem addSetting_defaultValue_guard_unreachable:
  "\<not> defaultValue_guard settingExt \<and>
   fst (addSetting cat tys settingExt this) \<noteq> Inl NeedDefaultValueMembers \<and>
   (holds_method this ''addSetting'' \<and> name settingExt = Some n \<and> n \<noteq> [] \<and>
    getTypeExt tys (type settingExt) = Some ty \<and> defaultValue settingExt = Undefined \<longrightarrow>
      addSetting cat tys settingExt this =
        (if isValid ty Undefined
         then (case sc_set this n Undefined of
                 (Inl e, this') \<Rightarrow> (Inl e, this')
               | (Inr u, this') \<Rightarrow> addObserver this' n)
         else (Inl (DefaultValueNotValid Undefined (type settingExt)), this)))"
  by (simp add: addSetting_never_NeedDefaultValueMembers defaultValue_guard_False)
     (simp add: addSetting_def defaultValue_guard_False)

theorem addSetting_defaultValue_guard_unreachable_witness:
  "\<not> defaultValue_guard
       \<lparr>name = Some ''tabsize'', type = Some ''number'', defaultValue = Undefined\<rparr> \<and>
   addSetting cat1 types0
       \<lparr>name = Some ''tabsize'', type = Some ''number'', defaultValue = Undefined\<rparr> created =
     (Inl (DefaultValueNotValid Undefined (Some ''number'')), created)"
  using addSetting_defaultValue_guard_unreachable
    [of "\<lparr>name = Some ''tabsize'', type = Some ''number'', defaultValue = Undefined\<rparr>"
      cat1 types0 created "''tabsize''" number_type]
    intact_called(1) [OF intact_created]
  by (simp add: getTypeExt_def types0_def number_type_def)

subsection \<open>Validation\<close>

text \<open>
  C1, as stated, fails: \<^verbatim>\<open>set\<close> consults no validator. After "tabsize" (a number,
  default 4) is registered, setting it to the string "wide", which the type "number"
  rejects, returns normally and stores the string.
\<close>

theorem sc_set_stores_invalid_value:
  "fst (addSetting cat1 types0 tabsize_ext created) = Inr () \<and>
   \<not> isValid number_type (Str ''wide'') \<and>
   sc_get with_tabsize ''tabsize'' = Inr (Value (Num 4)) \<and>
   fst (sc_set with_tabsize ''tabsize'' (Str ''wide'')) = Inr () \<and>
   sc_get (snd (sc_set with_tabsize ''tabsize'' (Str ''wide''))) ''tabsize'' =
     Inr (Value (Str ''wide''))"
proof -
  have "intact (snd (sc_set with_tabsize ''tabsize'' (Str ''wide'')))"
    using intact_update(1) [OF intact_with_tabsize not_member_with_tabsize(1)]
    by (simp add: sc_set_intact [OF intact_with_tabsize not_member_with_tabsize(1)])
  then show ?thesis
    by (simp add: addSetting_tabsize number_type_def sc_get_intact intact_with_tabsize
        with_tabsize_facts sc_set_intact [OF intact_with_tabsize not_member_with_tabsize(1)])
qed

text \<open>
  C1, amended. The validator is consulted for a declaration's default value, at
  registration: for every declaration (with a name and a type that resolves) whose
  \<^verbatim>\<open>defaultValue\<close> fails the type's validator, \<^verbatim>\<open>addSetting\<close> throws "Default
  value ... is not a valid ..." and leaves the object as it was, so \<^verbatim>\<open>get\<close> of every
  key is unchanged and the invalid default is not stored.
\<close>

theorem validation_only_of_defaultValue:
  assumes "holds_method this ''addSetting''"
    and "name settingExt = Some n" and "n \<noteq> []"
    and "getTypeExt tys (type settingExt) = Some ty"
    and "\<not> isValid ty (defaultValue settingExt)"
  shows "addSetting cat tys settingExt this =
           (Inl (DefaultValueNotValid (defaultValue settingExt) (type settingExt)), this) \<and>
         sc_get (snd (addSetting cat tys settingExt this)) key = sc_get this key"
  using assms by (simp add: addSetting_invalid)

theorem validation_only_of_defaultValue_witness:
  "addSetting cat1 types0 (tabsize_ext\<lparr>defaultValue := Str ''wide''\<rparr>) with_tabsize =
     (Inl (DefaultValueNotValid (Str ''wide'') (Some ''number'')), with_tabsize) \<and>
   sc_get (snd (addSetting cat1 types0 (tabsize_ext\<lparr>defaultValue := Str ''wide''\<rparr>) with_tabsize))
     ''tabsize'' = Inr (Value (Num 4))"
  using validation_only_of_defaultValue
    [of with_tabsize "tabsize_ext\<lparr>defaultValue := Str ''wide''\<rparr>" "''tabsize''" types0
      number_type cat1 "''tabsize''"]
    intact_called(1) [OF intact_with_tabsize]
  by (simp add: tabsize_ext_def getTypeExt_def types0_def number_type_def
      sc_get_intact intact_with_tabsize with_tabsize_facts)

subsection \<open>Setting a value and its notification\<close>




subsection \<open>Resetting\<close>

text \<open>
  C3 at a concrete input. "tabsize" (default 4) is registered and set to 8; then
  \<^verbatim>\<open>resetValue("tabsize")\<close> throws the ReferenceError for \<^verbatim>\<open>choice\<close> and the value
  stays 8. For a name that is not registered it throws the same error.
\<close>

theorem resetValue_throws_ReferenceError:
  "fst (sc_set with_tabsize ''tabsize'' (Num 8)) = Inr () \<and>
   sc_get tabsize_8 ''tabsize'' = Inr (Value (Num 8)) \<and>
   defaultValue tabsize_ext = Num 4 \<and>
   resetValue tabsize_8 ''tabsize'' = (Inl (ReferenceError ''choice''), tabsize_8) \<and>
   resetValue with_tabsize ''nosuch'' = (Inl (ReferenceError ''choice''), with_tabsize)"
  by (simp add: sc_set_tabsize_8 sc_get_intact intact_tabsize_8 props_tabsize_8 tabsize_ext_def
      resetValue_def intact_method [OF intact_tabsize_8] intact_method [OF intact_with_tabsize]
      known_members_def)

subsection \<open>Registering a name twice\<close>

text \<open>
  C4, as stated, fails: \<^verbatim>\<open>addSetting\<close> has no check for a name that is already
  registered. After "tabsize" is registered with the default 4, a second declaration
  of "tabsize" with the default 8 is accepted, and \<^verbatim>\<open>get("tabsize")\<close> is then 8.
\<close>

theorem addSetting_twice_overwrites:
  "fst (addSetting cat1 types0 tabsize_ext created) = Inr () \<and>
   sc_get with_tabsize ''tabsize'' = Inr (Value (Num 4)) \<and>
   fst (addSetting cat1 types0 (tabsize_ext\<lparr>defaultValue := Num 8\<rparr>) with_tabsize) = Inr () \<and>
   sc_get (snd (addSetting cat1 types0 (tabsize_ext\<lparr>defaultValue := Num 8\<rparr>) with_tabsize))
     ''tabsize'' = Inr (Value (Num 8))"
proof -
  let ?e = "tabsize_ext\<lparr>defaultValue := Num 8\<rparr>"
  have e: "addSetting cat1 types0 ?e with_tabsize =
      (Inr (), with_tabsize\<lparr>props := (props with_tabsize)(''tabsize'' := Value (Num 8)),
         changed := [(''tabsize'', Value (Num 8))], observers := [''tabsize'', ''tabsize'']\<rparr>)"
    using addSetting_intact [OF intact_with_tabsize not_member_with_tabsize(1),
        of ?e types0 number_type cat1]
    by (simp add: tabsize_ext_def getTypeExt_def types0_def number_type_def with_tabsize_facts)
  have "intact (snd (addSetting cat1 types0 ?e with_tabsize))"
    using intact_update(2) [OF intact_with_tabsize not_member_with_tabsize(1)]
    by (simp add: e)
  then have "sc_get (snd (addSetting cat1 types0 ?e with_tabsize)) ''tabsize'' =
      Inr (Value (Num 8))"
    by (simp add: sc_get_intact) (simp add: e)
  then show ?thesis
    by (simp add: addSetting_tabsize sc_get_intact intact_with_tabsize with_tabsize_facts e)
qed

text \<open>
  C4, amended. On an intact object, registering a name that is already registered
  and is no member of the object does not fail: when the second declaration's type
  resolves and its default is valid, \<^verbatim>\<open>addSetting\<close> returns normally,
  \<^verbatim>\<open>get(name)\<close> is the second declaration's default, and one more observer is
  attached for the name.
\<close>

theorem addSetting_has_no_duplicate_check:
  assumes "intact this" and "n \<notin> set (members this)" and "n \<in> set (observers this)"
    and "name settingExt = Some n" and "n \<noteq> []"
    and "getTypeExt tys (type settingExt) = Some ty"
    and "isValid ty (defaultValue settingExt)"
  shows "fst (addSetting cat tys settingExt this) = Inr () \<and>
         sc_get (snd (addSetting cat tys settingExt this)) n =
           Inr (Value (defaultValue settingExt)) \<and>
         observers (snd (addSetting cat tys settingExt this)) = observers this @ [n]"
proof -
  note e = addSetting_intact [OF assms(1,2,4-7), of cat]
  have "intact (snd (addSetting cat tys settingExt this))"
    using intact_update(2) [OF assms(1,2)] by (simp add: e)
  then have "sc_get (snd (addSetting cat tys settingExt this)) n =
      Inr (Value (defaultValue settingExt))"
    by (simp add: sc_get_intact) (simp add: e)
  then show ?thesis by (simp add: e)
qed

theorem addSetting_has_no_duplicate_check_witness:
  "''tabsize'' \<in> set (observers with_tabsize) \<and>
   fst (addSetting cat1 types0 (tabsize_ext\<lparr>defaultValue := Num 8\<rparr>) with_tabsize) = Inr () \<and>
   sc_get (snd (addSetting cat1 types0 (tabsize_ext\<lparr>defaultValue := Num 8\<rparr>) with_tabsize))
     ''tabsize'' = Inr (Value (Num 8)) \<and>
   observers (snd (addSetting cat1 types0 (tabsize_ext\<lparr>defaultValue := Num 8\<rparr>) with_tabsize)) =
     [''tabsize'', ''tabsize'']"
proof -
  have o: "''tabsize'' \<in> set (observers with_tabsize)"
    by (simp add: with_tabsize_facts)
  from addSetting_has_no_duplicate_check
    [OF intact_with_tabsize not_member_with_tabsize(1) o,
      of "tabsize_ext\<lparr>defaultValue := Num 8\<rparr>" types0 number_type cat1]
  show ?thesis
    by (simp add: tabsize_ext_def getTypeExt_def types0_def number_type_def with_tabsize_facts)
qed

subsection \<open>Loading a snapshot\<close>

text \<open>
  C5 at its own input. Only "tabsize" is declared and registered (a number, default
  4); the snapshot is \<^verbatim>\<open>{"unknownKey": "x", "tabsize": "2"}\<close>. The type "number"
  parses "2" to 2, but the code looks "tabsize" up among the types, finds nothing and
  skips the key: no error is raised, the reply resolves, and \<^verbatim>\<open>get("tabsize")\<close> is
  still 4.
\<close>

theorem loadFromObject_does_not_apply_tabsize:
  "sc_get with_tabsize ''tabsize'' = Inr (Value (Num 4)) \<and>
   types_fromString types0 (Str ''2'') (type tabsize_ext) = Some (Num 2) \<and>
   loadFromObject cat1 types0 with_tabsize [(''unknownKey'', Str ''x''), (''tabsize'', Str ''2'')] =
     (Inr (Some ()), with_tabsize)"
  by (simp add: loadFromObject_def getExtensionByKey_type_cat1_tabsize
      getExtensionByKey_type_cat1_unknownKey sc_get_intact intact_with_tabsize
      with_tabsize_facts types_fromString_def getTypeExt_def types0_def tabsize_ext_def
      number_type_def digit_of_def intact_method [OF intact_with_tabsize] known_members_def)

text \<open>
  C6 at two concrete inputs. "tabsize" and "theme" (default "dark") are registered.
  In the snapshot \<^verbatim>\<open>{"tabsize": "wide", "theme": "light"}\<close> the string for "tabsize"
  does not parse as a number and the one for "theme" parses; the reply resolves, but
  the other key is not applied: \<^verbatim>\<open>get("theme")\<close> is still "dark". In the snapshot
  \<^verbatim>\<open>{"number": "2", "theme": "light"}\<close> the key "number" names a type extension, so
  a parse is attempted, for the type \<^verbatim>\<open>settingExt.type\<close> that a type extension does
  not have; it fails, "theme" is not applied either, and the reply never resolves.
\<close>

theorem loadFromObject_does_not_apply_other_key:
  "types_fromString types0 (Str ''wide'') (type tabsize_ext) = None \<and>
   types_fromString types0 (Str ''light'') (type theme_ext) = Some (Str ''light'') \<and>
   sc_get with_both ''theme'' = Inr (Value (Str ''dark'')) \<and>
   loadFromObject cat0 types0 with_both [(''tabsize'', Str ''wide''), (''theme'', Str ''light'')] =
     (Inr (Some ()), with_both) \<and>
   getExtensionByKey cat0 ''type'' (Some ''number'') = Some (type_ext ''number'') \<and>
   types_fromString types0 (Str ''2'') (type (type_ext ''number'')) = None \<and>
   loadFromObject cat0 types0 with_both [(''number'', Str ''2''), (''theme'', Str ''light'')] =
     (Inr None, with_both)"
proof -
  have m: "holds_method with_both ''_loadFromObject''"
    by (simp add: intact_method [OF intact_with_both] known_members_def)
  have "types_fromString types0 (Str ''wide'') (type tabsize_ext) = None"
    by (simp add: types_fromString_def getTypeExt_def types0_def tabsize_ext_def
        number_type_def digit_of_def)
  moreover have "types_fromString types0 (Str ''light'') (type theme_ext) = Some (Str ''light'')"
    by (simp add: types_fromString_def getTypeExt_def types0_def theme_ext_def text_type_def)
  moreover have "sc_get with_both ''theme'' = Inr (Value (Str ''dark''))"
    by (simp add: sc_get_intact intact_with_both with_both_facts)
  moreover have "loadFromObject cat0 types0 with_both
      [(''tabsize'', Str ''wide''), (''theme'', Str ''light'')] = (Inr (Some ()), with_both)"
    using m by (simp add: loadFromObject_def getExtensionByKey_type_cat0_tabsize
        getExtensionByKey_type_cat0_theme)
  moreover have "types_fromString types0 (Str ''2'') (type (type_ext ''number'')) = None"
    by (simp add: types_fromString_def getTypeExt_def type_ext_def)
  moreover have "loadFromObject cat0 types0 with_both
      [(''number'', Str ''2''), (''theme'', Str ''light'')] = (Inr None, with_both)"
    using m by (simp add: loadFromObject_def getExtensionByKey_type_cat0_number
        getExtensionByKey_type_cat0_theme types_fromString_def getTypeExt_def type_ext_def)
  ultimately show ?thesis
    by (simp add: getExtensionByKey_type_cat0_number)
qed

subsection \<open>Saving a snapshot\<close>

text \<open>
  C7 at its own input. With the settings \<^verbatim>\<open>{tabsize: 4, theme: "dark"}\<close>, whose
  serialised values are "4" and "dark", \<^verbatim>\<open>_saveToObject\<close> resolves with the empty
  snapshot: each name is looked up among the types and skipped.
\<close>

theorem saveToObject_gives_empty_snapshot:
  "sc_get with_both ''tabsize'' = Inr (Value (Num 4)) \<and>
   sc_get with_both ''theme'' = Inr (Value (Str ''dark'')) \<and>
   types_toString types0 (Value (Num 4)) (type tabsize_ext) = Some ''4'' \<and>
   types_toString types0 (Value (Str ''dark'')) (type theme_ext) = Some ''dark'' \<and>
   saveToObject cat0 types0 with_both = (Inr (Some []), with_both)"
  by (simp add: saveToObject_def getSettingNames_cat0 [OF intact_with_both]
      getExtensionByKey_type_cat0_tabsize getExtensionByKey_type_cat0_theme
      sc_get_intact intact_with_both with_both_facts types_toString_def js_key_def
      getTypeExt_def types0_def tabsize_ext_def theme_ext_def number_type_def text_type_def
      show_nat.simps intact_method [OF intact_with_both] known_members_def)

subsection \<open>Notifications\<close>




subsection \<open>Listing\<close>

text \<open>
  C9 at a concrete input. The catalog declares "tabsize" and "theme", in this order,
  and both are registered; \<^verbatim>\<open>_list\<close> throws the ReferenceError for \<^verbatim>\<open>prop\<close> and
  returns no pair.
\<close>

theorem list_settings_throws_ReferenceError:
  "getSettingNames cat0 with_both = Inr [Some ''tabsize'', Some ''theme''] \<and>
   list_settings cat0 with_both = (Inl (ReferenceError ''prop''), with_both)"
  by (simp add: list_settings_def getSettingNames_cat0 [OF intact_with_both]
      intact_method [OF intact_with_both] known_members_def)

end
